theory Spec2Isabelle
  imports Complex_Main "HOL-Library.Word" "HOL-Library.Char_ord" "HOL-Library.List_Lexorder"
begin

section \<open>Data model of the scatter-actions finder\<close>

text \<open>
  The embedding follows \<^verbatim>\<open>src/src/scatteractionsfinder.cc\<close>. A C++ \<^verbatim>\<open>double\<close> is
  modelled by a real number: rounding, infinities and NaN are not represented, so the
  model speaks about the calls in which every divisor (the test-particle number, the
  cell volume) is nonzero. Debug logging is not modelled; it has no effect on the
  value a call returns.
\<close>

datatype CollisionCriterion = Geometric | Stochastic | Covariant

type_synonym FourVector = "real \<times> real \<times> real \<times> real"

text \<open>
  The part of \<^verbatim>\<open>ParticleData\<close> the finder reads. The class declaration is not among
  the sources; \<^verbatim>\<open>id()\<close> is a signed integer (the code asserts \<^verbatim>\<open>id() >= 0\<close>) and
  \<^verbatim>\<open>id_process()\<close> is the unsigned 32-bit counter of the last process.
\<close>

record ParticleData =
  id_number :: int
  id_process :: "32 word"
  position :: FourVector
  momentum :: FourVector

type_synonym ParticleList = "ParticleData list"

text \<open>
  An action as the evaluators construct it: \<^verbatim>\<open>ScatterAction(data_a, data_b, time, ...)\<close>
  or \<^verbatim>\<open>ScatterActionMulti(plist, time)\<close>.
\<close>

datatype Action =
    ScatterAction ParticleData ParticleData real
  | ScatterActionMulti ParticleList real

fun time_until_collision :: "Action \<Rightarrow> real" where
  "time_until_collision (ScatterAction a b t) = t"
| "time_until_collision (ScatterActionMulti plist t) = t"

text \<open>
  What a \<^verbatim>\<open>std::stringstream\<close> receives through \<^verbatim>\<open><<\<close>: literal text and numbers.
  The message of a \<^verbatim>\<open>std::runtime_error\<close> is the list of the pieces streamed into it.
\<close>

datatype msg_part = Text string | Number real

text \<open>
  The ways a call can fail: a thrown \<^verbatim>\<open>std::runtime_error\<close>, a failed \<^verbatim>\<open>assert\<close>,
  an unchecked access outside a vector or an \<^verbatim>\<open>erase\<close> of the end iterator (undefined
  in C++; the model stops there), and the \<^verbatim>\<open>std::out_of_range\<close> thrown by
  \<^verbatim>\<open>std::vector::at\<close>.
\<close>

datatype error =
    Runtime_Error "msg_part list"
  | Assertion_Failed
  | Undefined_Behaviour
  | Out_Of_Range

text \<open>The members of \<^verbatim>\<open>ScatterActionsFinder\<close> that the evaluators branch on.\<close>

record ScatterActionsFinder =
  coll_crit :: CollisionCriterion
  testparticles :: int
  nucleon_has_interacted :: "bool list"
  N_tot :: int
  N_proj :: int

text \<open>
  The collaborators whose code is not among the sources enter as parameters: the
  constants of \<^verbatim>\<open>constants.h\<close>, the finder's inline \<^verbatim>\<open>collision_time\<close>, and the member
  functions of \<^verbatim>\<open>ScatterAction\<close>, \<^verbatim>\<open>ScatterActionMulti\<close> and \<^verbatim>\<open>ParticleData\<close> that are
  called on the freshly built action. \<^verbatim>\<open>cross_section\<close> is the total cross section after
  \<^verbatim>\<open>add_all_scatterings\<close>; \<^verbatim>\<open>process_type_is_None\<close> is the test
  \<^verbatim>\<open>act->process_type() == ProcessType::None\<close> after \<^verbatim>\<open>add_final_state\<close>.
\<close>

record Physics =
  really_small :: real
  fm2_mb :: real
  collision_time :: "ParticleData \<Rightarrow> ParticleData \<Rightarrow> real \<Rightarrow> FourVector list \<Rightarrow> real"
  transverse_distance_sqr :: "Action \<Rightarrow> real"
  cov_transverse_distance_sqr :: "Action \<Rightarrow> real"
  max_transverse_distance_sqr :: "int \<Rightarrow> real"
  cross_section :: "Action \<Rightarrow> real"
  xsec_scaling_factor :: "ParticleData \<Rightarrow> real \<Rightarrow> real"
  relative_velocity :: "Action \<Rightarrow> real"
  process_type_is_None :: "Action \<Rightarrow> bool"
  probability_multi :: "Action \<Rightarrow> real \<Rightarrow> real \<Rightarrow> real"

text \<open>
  The pseudo-random source is explicit: \<open>draws k\<close> is the value the \<open>k\<close>-th call of
  \<^verbatim>\<open>random::uniform(0., 1.)\<close> inside the evaluator returns.
\<close>

type_synonym Draws = "nat \<Rightarrow> real"

section \<open>The pair evaluator\<close>

text \<open>\<^verbatim>\<open>nucleon_has_interacted_[i]\<close>: an unchecked read, defined only inside the vector.\<close>

definition flag_at :: "bool list \<Rightarrow> int \<Rightarrow> bool option" where
  "flag_at v i = (if 0 \<le> i \<and> i < int (length v) then Some (v ! nat i) else None)"

text \<open>
  The condition of the first \<^verbatim>\<open>if\<close> of \<^verbatim>\<open>check_collision_two_part\<close>, evaluated left to
  right with the short circuits of \<^verbatim>\<open>&&\<close> and \<^verbatim>\<open>||\<close>: the flag of \<open>b\<close> is read only when
  the flag of \<open>a\<close> is clear.
\<close>

definition spectator_check ::
  "ScatterActionsFinder \<Rightarrow> ParticleData \<Rightarrow> ParticleData \<Rightarrow> error + bool" where
  "spectator_check F a b =
     (if id_number a < N_tot F \<and> id_number b < N_tot F \<and>
         ((id_number a < N_proj F \<and> id_number b < N_proj F) \<or>
          (id_number a \<ge> N_proj F \<and> id_number b \<ge> N_proj F))
      then (case flag_at (nucleon_has_interacted F) (id_number a) of
              None \<Rightarrow> Inl Undefined_Behaviour
            | Some fa \<Rightarrow>
                if fa then Inr False
                else (case flag_at (nucleon_has_interacted F) (id_number b) of
                        None \<Rightarrow> Inl Undefined_Behaviour
                      | Some fb \<Rightarrow> Inr (\<not> fb)))
      else Inr False)"

definition distance_squared :: "ScatterActionsFinder \<Rightarrow> Physics \<Rightarrow> Action \<Rightarrow> real" where
  "distance_squared F X act =
     (if coll_crit F = Geometric then transverse_distance_sqr X act
      else if coll_crit F = Covariant then cov_transverse_distance_sqr X act
      else 0)"

text \<open>The local \<^verbatim>\<open>xs\<close>: the total cross section converted with \<^verbatim>\<open>fm2_mb\<close>, per test particle, scaled.\<close>

definition scaled_cross_section ::
  "ScatterActionsFinder \<Rightarrow> Physics \<Rightarrow> ParticleData \<Rightarrow> ParticleData \<Rightarrow> real \<Rightarrow> real" where
  "scaled_cross_section F X a b t =
     cross_section X (ScatterAction a b t) * fm2_mb X / real_of_int (testparticles F)
       * xsec_scaling_factor X a t * xsec_scaling_factor X b t"

text \<open>The local \<^verbatim>\<open>prob\<close> of the stochastic branch.\<close>

definition collision_probability ::
  "ScatterActionsFinder \<Rightarrow> Physics \<Rightarrow> ParticleData \<Rightarrow> ParticleData \<Rightarrow> real \<Rightarrow> real \<Rightarrow> real \<Rightarrow> real" where
  "collision_probability F X a b t dt cell_vol =
     scaled_cross_section F X a b t * relative_velocity X (ScatterAction a b t) * dt / cell_vol"

definition two_part_message :: "real \<Rightarrow> msg_part list" where
  "two_part_message prob =
     [Text ''Probability larger than 1 for stochastic rates. ( P = '', Number prob,
      Text ('' )'' @ [CHR 0x0A] @ ''Use smaller timesteps.'')]"

text \<open>
  \<^verbatim>\<open>check_collision_two_part\<close>. The asserts are modelled as compiled in. The last
  \<^verbatim>\<open>else if\<close> of the source tests for the geometric or the covariant criterion, which
  is every criterion that is not the stochastic one.
\<close>

definition check_collision_two_part ::
  "ScatterActionsFinder \<Rightarrow> Physics \<Rightarrow> ParticleData \<Rightarrow> ParticleData \<Rightarrow> real \<Rightarrow>
   FourVector list \<Rightarrow> real \<Rightarrow> Draws \<Rightarrow> error + Action option" where
  "check_collision_two_part F X data_a data_b dt beam_momentum cell_vol draws =
     (if id_number data_a < 0 then Inl Assertion_Failed
      else if id_number data_b < 0 then Inl Assertion_Failed
      else case spectator_check F data_a data_b of
        Inl e \<Rightarrow> Inl e
      | Inr True \<Rightarrow> Inr None
      | Inr False \<Rightarrow>
         if coll_crit F = Stochastic \<and> cell_vol < really_small X then Inr None
         else
           let time = collision_time X data_a data_b dt beam_momentum in
           if time < 0 \<or> time \<ge> dt then Inr None
           else
             let act = ScatterAction data_a data_b time;
                 d2 = distance_squared F X act in
             if coll_crit F \<noteq> Stochastic \<and> d2 \<ge> max_transverse_distance_sqr X (testparticles F)
             then Inr None
             else
               let xs = scaled_cross_section F X data_a data_b time in
               if coll_crit F = Stochastic then
                 let prob = collision_probability F X data_a data_b time dt cell_vol in
                 if prob > 1 then Inl (Runtime_Error (two_part_message prob))
                 else if draws 0 > prob then Inr None
                 else Inr (Some act)
               else
                 if id_process data_a > 0 \<and> id_process data_a = id_process data_b then Inr None
                 else if d2 \<ge> xs * (1 / pi) then Inr None
                 else Inr (Some act))"

section \<open>The multi-body evaluator\<close>

definition testparticles_message :: "msg_part list" where
  "testparticles_message =
     [Text ''Multi-body reactions do not scale with testparticles yet. Use 1.'']"

definition multi_part_message :: "real \<Rightarrow> msg_part list" where
  "multi_part_message p_nm =
     [Text ''Probability larger than 1 for stochastic rates. ( P_nm = '', Number p_nm,
      Text ('' )'' @ [CHR 0x0A] @ ''Use smaller timesteps.'')]"

text \<open>
  \<^verbatim>\<open>check_collision_multi_part\<close>. The first draw gives the time, the second one decides
  the acceptance.
\<close>

definition check_collision_multi_part ::
  "ScatterActionsFinder \<Rightarrow> Physics \<Rightarrow> ParticleList \<Rightarrow> real \<Rightarrow> real \<Rightarrow> Draws \<Rightarrow>
   error + Action option" where
  "check_collision_multi_part F X plist dt cell_vol draws =
     (if cell_vol < really_small X then Inr None
      else if testparticles F \<noteq> 1 then Inl (Runtime_Error testparticles_message)
      else
        let time = dt * draws 0;
            act = ScatterActionMulti plist time in
        if process_type_is_None X act then Inr None
        else
          let p_nm = probability_multi X act dt cell_vol in
          if p_nm > 1 then Inl (Runtime_Error (multi_part_message p_nm))
          else if draws 1 > p_nm then Inr None
          else Inr (Some act))"

section \<open>Path conditions\<close>

text \<open>
  A pair passes the checks in front of the final decision: the asserts, the spectator
  exclusion, the cell-volume gate, the timing window and the distance pre-filter.
\<close>

definition passes_pair_checks ::
  "ScatterActionsFinder \<Rightarrow> Physics \<Rightarrow> ParticleData \<Rightarrow> ParticleData \<Rightarrow> real \<Rightarrow>
   FourVector list \<Rightarrow> real \<Rightarrow> bool" where
  "passes_pair_checks F X a b dt beam cell_vol =
     (0 \<le> id_number a \<and> 0 \<le> id_number b \<and>
      spectator_check F a b = Inr False \<and>
      \<not> (coll_crit F = Stochastic \<and> cell_vol < really_small X) \<and>
      0 \<le> collision_time X a b dt beam \<and> collision_time X a b dt beam < dt \<and>
      \<not> (coll_crit F \<noteq> Stochastic \<and>
         distance_squared F X (ScatterAction a b (collision_time X a b dt beam))
           \<ge> max_transverse_distance_sqr X (testparticles F)))"

text \<open>A group reaches the probability of the multi-body evaluator.\<close>

definition passes_multi_checks ::
  "ScatterActionsFinder \<Rightarrow> Physics \<Rightarrow> ParticleList \<Rightarrow> real \<Rightarrow> real \<Rightarrow> Draws \<Rightarrow> bool" where
  "passes_multi_checks F X plist dt cell_vol draws =
     (\<not> cell_vol < really_small X \<and> testparticles F = 1 \<and>
      \<not> process_type_is_None X (ScatterActionMulti plist (dt * draws 0)))"

text \<open>
  The flag vector holds one entry per initial nucleon and the ids are not negative:
  then no assert fails and no read leaves the vector.
\<close>

definition ids_in_range :: "ScatterActionsFinder \<Rightarrow> ParticleData \<Rightarrow> ParticleData \<Rightarrow> bool" where
  "ids_in_range F a b =
     (0 \<le> id_number a \<and> 0 \<le> id_number b \<and> N_tot F \<le> int (length (nucleon_has_interacted F)))"

text \<open>The numbers a message carries, in the order they were streamed.\<close>

fun numbers_in :: "msg_part list \<Rightarrow> real list" where
  "numbers_in [] = []"
| "numbers_in (Text s # ms) = numbers_in ms"
| "numbers_in (Number x # ms) = x # numbers_in ms"

section \<open>Test data\<close>

definition test_particle :: "int \<Rightarrow> 32 word \<Rightarrow> ParticleData" where
  "test_particle i p =
     \<lparr>id_number = i, id_process = p, position = (0, 0, 0, 0), momentum = (1, 0, 0, 0)\<rparr>"

definition test_finder :: "CollisionCriterion \<Rightarrow> int \<Rightarrow> ScatterActionsFinder" where
  "test_finder crit n =
     \<lparr>coll_crit = crit, testparticles = n,
      nucleon_has_interacted = [False, False, True, False], N_tot = 4, N_proj = 2\<rparr>"

definition test_physics :: Physics where
  "test_physics =
     \<lparr>really_small = 1 / 1000000, fm2_mb = 1 / 10,
      collision_time = (\<lambda>a b dt beam. dt / 2),
      transverse_distance_sqr = (\<lambda>act. 0),
      cov_transverse_distance_sqr = (\<lambda>act. 0),
      max_transverse_distance_sqr = (\<lambda>n. 1),
      cross_section = (\<lambda>act. 20),
      xsec_scaling_factor = (\<lambda>p t. 1),
      relative_velocity = (\<lambda>act. 1),
      process_type_is_None = (\<lambda>act. False),
      probability_multi = (\<lambda>act dt cell_vol. dt / (cell_vol * cell_vol))\<rparr>"

definition constant_draws :: "real \<Rightarrow> Draws" where
  "constant_draws u = (\<lambda>k. u)"

section \<open>Final-state cross sections and their deduplication\<close>

record FinalStateCrossSection =
  fs_name :: string
  fs_cross_section :: real
  fs_mass :: real

text \<open>
  The \<^verbatim>\<open>while\<close> loop of \<^verbatim>\<open>deduplicate\<close>, from \<^verbatim>\<open>current\<close> to the end of the vector:
  \<^verbatim>\<open>std::adjacent_find\<close> walks to the first two neighbours with equal names, the first
  one receives the sum of the cross sections, the second one is erased, and the search
  goes on from the first one.
\<close>

fun deduplicate_loop :: "FinalStateCrossSection list \<Rightarrow> FinalStateCrossSection list" where
  "deduplicate_loop (a # b # rest) =
     (if fs_name a = fs_name b
      then deduplicate_loop
             (a\<lparr>fs_cross_section := fs_cross_section a + fs_cross_section b\<rparr> # rest)
      else a # deduplicate_loop (b # rest))"
| "deduplicate_loop xs = xs"

text \<open>
  \<^verbatim>\<open>std::sort\<close> with the comparison of the names is modelled by the stable
  \<open>sort_key\<close>; \<^verbatim>\<open>std::string\<close> compares bytewise, as the order on \<open>string\<close> does.
\<close>

definition deduplicate :: "FinalStateCrossSection list \<Rightarrow> FinalStateCrossSection list" where
  "deduplicate final_state_xs = deduplicate_loop (sort_key fs_name final_state_xs)"

section \<open>The momentum scan of the cross-section dump\<close>

text \<open>
  Of \<^verbatim>\<open>dump_cross_sections\<close> the model keeps what happens to the caller's \<^verbatim>\<open>plab\<close>
  and which momenta the first loop visits. \<^verbatim>\<open>std::unique\<close> followed by \<^verbatim>\<open>erase\<close>
  removes every element equal to its predecessor.
\<close>

definition momentum_step :: real where
  "momentum_step = 2 / 100"

definition prepare_plab :: "real list \<Rightarrow> nat \<times> real list" where
  "prepare_plab plab =
     (if length plab > 0 then (length plab, remdups_adj (sort plab)) else (200, plab))"

text \<open>
  The loop \<^verbatim>\<open>for (int i = 0; i < n_momentum_points; i++)\<close>, reduced to the momentum each
  round computes. \<open>pcm\<close> stands for \<^verbatim>\<open>pCM_from_s(s_from_plab(p, m_a, m_b), m_a, m_b)\<close>,
  whose code is not among the sources. \<^verbatim>\<open>plab.at(i)\<close> throws outside the vector, which
  ends the call; the result holds the momenta visited until then.
\<close>

fun scan_momenta ::
  "(real \<Rightarrow> real) \<Rightarrow> real list \<Rightarrow> nat list \<Rightarrow> real list \<times> error option" where
  "scan_momenta pcm plab [] = ([], None)"
| "scan_momenta pcm plab (i # js) =
     (if length plab > 0 then
        (if i < length plab
         then (case scan_momenta pcm plab js of (ms, e) \<Rightarrow> (pcm (plab ! i) # ms, e))
         else ([], Some Out_Of_Range))
      else (case scan_momenta pcm plab js of
              (ms, e) \<Rightarrow> (momentum_step * (real i + 1) # ms, e)))"

text \<open>The caller's vector after the call, the momenta visited, and the exception if any.\<close>

definition dump_cross_sections_scan ::
  "(real \<Rightarrow> real) \<Rightarrow> real list \<Rightarrow> real list \<times> real list \<times> error option" where
  "dump_cross_sections_scan pcm plab =
     (case prepare_plab plab of (n_momentum_points, plab') \<Rightarrow>
        (plab', scan_momenta pcm plab' [0..<n_momentum_points]))"

definition test_momentum :: "real \<Rightarrow> real" where
  "test_momentum p = p / 2"

section \<open>The decay tree\<close>

text \<open>
  A \<^verbatim>\<open>ParticleTypePtr\<close> is an address; the store maps it to the particle type it
  points to. Of \<^verbatim>\<open>ParticleType\<close> and \<^verbatim>\<open>DecayBranch\<close>, whose declarations are not among
  the sources, the model keeps the members the decay tree reads.
\<close>

type_synonym ParticleTypePtr = nat

type_synonym ParticleTypePtrList = "ParticleTypePtr list"

record DecayBranch =
  particle_types :: ParticleTypePtrList
  weight :: real

record ParticleType =
  name :: string
  mass :: real
  is_stable :: bool
  decay_mode_list :: "DecayBranch list"

type_synonym TypeStore = "ParticleTypePtr \<Rightarrow> ParticleType"

datatype Node = Node
  (node_name: string)
  (node_weight: real)
  (initial_particles: ParticleTypePtrList)
  (final_particles: ParticleTypePtrList)
  (state: ParticleTypePtrList)
  (children: "Node list")

definition set_weight :: "Node \<Rightarrow> real \<Rightarrow> Node" where
  "set_weight n w =
     Node (node_name n) w (initial_particles n) (final_particles n) (state n) (children n)"

definition set_children :: "Node \<Rightarrow> Node list \<Rightarrow> Node" where
  "set_children n cs =
     Node (node_name n) (node_weight n) (initial_particles n) (final_particles n) (state n) cs"

text \<open>
  The first loop of \<^verbatim>\<open>add_action\<close>: \<^verbatim>\<open>state.erase(std::find(...))\<close> removes the first
  occurrence of each initial particle; erasing the end iterator, when the particle is
  not in the state, is undefined.
\<close>

fun erase_each :: "ParticleTypePtrList \<Rightarrow> ParticleTypePtrList \<Rightarrow> error + ParticleTypePtrList" where
  "erase_each [] st = Inr st"
| "erase_each (p # ps) st =
     (if p \<in> set st then erase_each ps (remove1 p st) else Inl Undefined_Behaviour)"

text \<open>
  \<^verbatim>\<open>Node::add_action\<close> returns the parent with the new child at the back of its
  children; the reference the C++ function returns is to that last child.
  \<^verbatim>\<open>std::sort\<close> by name is modelled by the stable \<open>sort_key\<close>.
\<close>

definition add_action ::
  "TypeStore \<Rightarrow> Node \<Rightarrow> string \<Rightarrow> real \<Rightarrow> ParticleTypePtrList \<Rightarrow> ParticleTypePtrList \<Rightarrow>
   error + Node" where
  "add_action T node nm w initial final =
     (case erase_each initial (state node) of
        Inl e \<Rightarrow> Inl e
      | Inr st \<Rightarrow>
          let st' = sort_key (\<lambda>p. name (T p)) (st @ final);
              new_node = Node nm w initial final st' []
          in Inr (set_children node (children node @ [new_node])))"

definition make_decay_name ::
  "TypeStore \<Rightarrow> string \<Rightarrow> DecayBranch \<Rightarrow> ParticleTypePtrList \<Rightarrow> string \<times> ParticleTypePtrList" where
  "make_decay_name T res_name decay final_state =
     (''['' @ res_name @ ''->'' @ concat (map (\<lambda>p. name (T p)) (particle_types decay)) @ '']'',
      final_state @ particle_types decay)"

text \<open>The local \<^verbatim>\<open>final_state_mass\<close> of a decay branch.\<close>

definition final_state_mass :: "TypeStore \<Rightarrow> DecayBranch \<Rightarrow> real" where
  "final_state_mass T decay = foldl (\<lambda>m p. m + mass (T p)) 0 (particle_types decay)"

text \<open>
  The loop over the decay modes of one unstable particle \<open>ptype\<close>. It threads the node
  and the flag \<^verbatim>\<open>can_decay\<close>. \<open>rec\<close> is the recursive call of \<^verbatim>\<open>add_decays\<close> on the
  child just added, which is updated in place at the back of the children. A result
  \<open>None\<close> means that the recursion did not come back.
\<close>

fun decay_loop ::
  "(Node \<Rightarrow> real \<Rightarrow> (error + Node) option) \<Rightarrow> TypeStore \<Rightarrow> real \<Rightarrow> real \<Rightarrow> ParticleTypePtr \<Rightarrow>
   DecayBranch list \<Rightarrow> Node \<Rightarrow> bool \<Rightarrow> (error + Node \<times> bool) option" where
  "decay_loop rec T nrm sqrts_decay ptype [] node can_decay = Some (Inr (node, can_decay))"
| "decay_loop rec T nrm sqrts_decay ptype (decay # decays) node can_decay =
     (if final_state_mass T decay > sqrts_decay
      then decay_loop rec T nrm sqrts_decay ptype decays node can_decay
      else
        (case make_decay_name T (name (T ptype)) decay [] of (nm, parts) \<Rightarrow>
           (case add_action T node nm (nrm * weight decay) [ptype] parts of
              Inl e \<Rightarrow> Some (Inl e)
            | Inr node1 \<Rightarrow>
                (case rec (last (children node1)) sqrts_decay of
                   None \<Rightarrow> None
                 | Some (Inl e) \<Rightarrow> Some (Inl e)
                 | Some (Inr new_node) \<Rightarrow>
                     decay_loop rec T nrm sqrts_decay ptype decays
                       (set_children node1 (butlast (children node1) @ [new_node])) True))))"

text \<open>
  The second loop of \<^verbatim>\<open>add_decays\<close>, over the entries of the node's state (the state
  itself does not change while children are added). An unstable particle that cannot
  decay sets the weight to zero and ends the call.
\<close>

fun state_loop ::
  "(Node \<Rightarrow> real \<Rightarrow> (error + Node) option) \<Rightarrow> TypeStore \<Rightarrow> real \<Rightarrow> real \<Rightarrow>
   ParticleTypePtrList \<Rightarrow> Node \<Rightarrow> (error + Node) option" where
  "state_loop rec T nrm sqrts_minus_masses [] node = Some (Inr node)"
| "state_loop rec T nrm sqrts_minus_masses (ptype # rest) node =
     (if \<not> is_stable (T ptype) then
        (let sqrts_decay = sqrts_minus_masses + mass (T ptype) in
         case decay_loop rec T nrm sqrts_decay ptype (decay_mode_list (T ptype)) node False of
           None \<Rightarrow> None
         | Some (Inl e) \<Rightarrow> Some (Inl e)
         | Some (Inr (node1, can_decay)) \<Rightarrow>
             if \<not> can_decay then Some (Inr (set_weight node1 0))
             else state_loop rec T nrm sqrts_minus_masses rest node1)
      else state_loop rec T nrm sqrts_minus_masses rest node)"

text \<open>The first loop of \<^verbatim>\<open>add_decays\<close> and the normalisation it leads to.\<close>

definition n_unstable :: "TypeStore \<Rightarrow> ParticleTypePtrList \<Rightarrow> nat" where
  "n_unstable T st = length (filter (\<lambda>p. \<not> is_stable (T p)) st)"

definition sqrts_minus_masses :: "TypeStore \<Rightarrow> real \<Rightarrow> ParticleTypePtrList \<Rightarrow> real" where
  "sqrts_minus_masses T sqrts st = foldl (\<lambda>s p. s - mass (T p)) sqrts st"

definition norm_of :: "TypeStore \<Rightarrow> ParticleTypePtrList \<Rightarrow> real" where
  "norm_of T st = (if n_unstable T st \<noteq> 0 then 1 / real (n_unstable T st) else 1)"

text \<open>
  \<^verbatim>\<open>add_decays\<close>. Nothing in the code bounds the depth of the recursion (a massless
  type that decays into itself is expanded for ever), so the first argument bounds
  it: \<open>None\<close> is returned when the bound is used up.
\<close>

primrec add_decays :: "nat \<Rightarrow> TypeStore \<Rightarrow> Node \<Rightarrow> real \<Rightarrow> (error + Node) option" where
  "add_decays 0 = (\<lambda>T node sqrts. None)"
| "add_decays (Suc depth) = (\<lambda>T node sqrts.
     state_loop (add_decays depth T) T (norm_of T (state node))
       (sqrts_minus_masses T sqrts (state node)) (state node) node)"

text \<open>A result with the weight of the returned node overwritten by zero.\<close>

definition zero_weight :: "(error + Node) option \<Rightarrow> (error + Node) option" where
  "zero_weight r = map_option (map_sum (\<lambda>e. e) (\<lambda>n. set_weight n 0)) r"

text \<open>
  The relation between a node and its parent's state that the claims speak about: the
  parent's state without the first occurrence of each initial particle, followed by the
  final particles, sorted by name.
\<close>

definition child_state_ok :: "TypeStore \<Rightarrow> ParticleTypePtrList \<Rightarrow> Node \<Rightarrow> bool" where
  "child_state_ok T parent_state c =
     (state c = sort_key (\<lambda>p. name (T p))
        (foldl (\<lambda>st p. remove1 p st) parent_state (initial_particles c) @ final_particles c))"

fun tree_ok :: "TypeStore \<Rightarrow> Node \<Rightarrow> bool" where
  "tree_ok T (Node nm w ini fin st cs) = (\<forall>c \<in> set cs. child_state_ok T st c \<and> tree_ok T c)"

text \<open>
  How a tree is built: a child is added to a node with \<open>add_action\<close>, a node below is
  built further, or a weight is overwritten (as \<^verbatim>\<open>add_decays\<close> does).
\<close>

inductive grows :: "TypeStore \<Rightarrow> Node \<Rightarrow> Node \<Rightarrow> bool" for T :: TypeStore where
  grows_add: "add_action T n nm w ini fin = Inr n' \<Longrightarrow> grows T n n'"
| grows_child: "grows T c c' \<Longrightarrow> i < length (children n) \<Longrightarrow> children n ! i = c \<Longrightarrow>
     grows T n (set_children n ((children n)[i := c']))"
| grows_weight: "grows T n (set_weight n w)"

code_pred grows .

text \<open>Test data: a stable pion, a heavy stable type, and two resonances.\<close>

definition test_types :: TypeStore where
  "test_types p =
     (if p = 0 then \<lparr>name = ''pi'', mass = 1 / 10, is_stable = True, decay_mode_list = []\<rparr>
      else if p = 1 then \<lparr>name = ''X'', mass = 1, is_stable = False,
        decay_mode_list = [\<lparr>particle_types = [2, 2], weight = 1\<rparr>]\<rparr>
      else if p = 2 then \<lparr>name = ''N'', mass = 1, is_stable = True, decay_mode_list = []\<rparr>
      else \<lparr>name = ''rho'', mass = 1 / 2, is_stable = False,
        decay_mode_list = [\<lparr>particle_types = [0, 0], weight = 1\<rparr>]\<rparr>)"

definition test_root :: "ParticleTypePtrList \<Rightarrow> Node" where
  "test_root st = Node ''root'' 5 st st st []"

section \<open>Properties of the evaluators\<close>

lemma flag_at_Some_nonneg: "flag_at v i = Some f \<Longrightarrow> 0 \<le> i"
  by (simp add: flag_at_def split: if_splits)

lemma spectator_check_in_range:
  "ids_in_range F a b \<Longrightarrow> \<exists>r. spectator_check F a b = Inr r"
  by (auto simp: ids_in_range_def spectator_check_def flag_at_def split: option.splits)

text \<open>
  C1. Spectator exclusion: when both ids are below \<open>N_tot\<close>, both particles are on the
  same beam side, and the entry of each in the interaction-history vector is clear,
  \<open>check_collision_two_part\<close> returns no action, whatever the criterion, the
  kinematics, the timestep, the cell volume and the random draws.
\<close>

theorem spectator_exclusion:
  assumes "id_number a < N_tot F" and "id_number b < N_tot F"
    and "(id_number a < N_proj F \<and> id_number b < N_proj F) \<or>
         (id_number a \<ge> N_proj F \<and> id_number b \<ge> N_proj F)"
    and "flag_at (nucleon_has_interacted F) (id_number a) = Some False"
    and "flag_at (nucleon_has_interacted F) (id_number b) = Some False"
  shows "check_collision_two_part F X a b dt beam cell_vol draws = Inr None"
proof -
  have "0 \<le> id_number a" and "0 \<le> id_number b"
    using assms(4,5) by (auto dest: flag_at_Some_nonneg)
  moreover have "spectator_check F a b = Inr True"
    using assms by (simp add: spectator_check_def)
  ultimately show ?thesis
    by (simp add: check_collision_two_part_def)
qed

theorem spectator_exclusion_witness:
  "id_number (test_particle 0 0) < N_tot (test_finder Geometric 1) \<and>
   flag_at (nucleon_has_interacted (test_finder Geometric 1)) (id_number (test_particle 1 0)) = Some False \<and>
   check_collision_two_part (test_finder Geometric 1) test_physics (test_particle 0 0)
     (test_particle 1 0) 1 [] 1 (constant_draws 0) = Inr None"
  using spectator_exclusion [where a = "test_particle 0 0" and b = "test_particle 1 0"
      and F = "test_finder Geometric 1" and X = test_physics and dt = 1 and beam = "[]"
      and cell_vol = 1 and draws = "constant_draws 0"]
  by (simp add: test_finder_def test_particle_def flag_at_def)

text \<open>
  Once a pair has passed the checks, only the final decision of the criterion is left.
\<close>

lemma two_part_after_checks:
  assumes "passes_pair_checks F X a b dt beam cell_vol"
  shows "check_collision_two_part F X a b dt beam cell_vol draws =
     (let t = collision_time X a b dt beam in
      if coll_crit F = Stochastic then
        (let prob = collision_probability F X a b t dt cell_vol in
         if prob > 1 then Inl (Runtime_Error (two_part_message prob))
         else if draws 0 > prob then Inr None
         else Inr (Some (ScatterAction a b t)))
      else if id_process a > 0 \<and> id_process a = id_process b then Inr None
      else if distance_squared F X (ScatterAction a b t) \<ge> scaled_cross_section F X a b t * (1 / pi)
        then Inr None
      else Inr (Some (ScatterAction a b t)))"
proof -
  let ?t = "collision_time X a b dt beam"
  from assms have ids: "\<not> id_number a < 0" "\<not> id_number b < 0"
    and sc: "spectator_check F a b = Inr False"
    and gate: "\<not> (coll_crit F = Stochastic \<and> cell_vol < really_small X)"
    and time: "\<not> (?t < 0 \<or> ?t \<ge> dt)"
    and pre: "\<not> (coll_crit F \<noteq> Stochastic \<and>
         distance_squared F X (ScatterAction a b ?t) \<ge> max_transverse_distance_sqr X (testparticles F))"
    by (auto simp: passes_pair_checks_def)
  show ?thesis
    unfolding check_collision_two_part_def Let_def
    by (simp only: ids sc gate time pre if_False sum.case bool.case)
qed

lemma test_pair_passes:
  "passes_pair_checks (test_finder Stochastic 1) test_physics (test_particle 0 0)
     (test_particle 2 0) 1 [] (1 / 2)"
  by (simp add: passes_pair_checks_def test_finder_def test_physics_def test_particle_def
      spectator_check_def)

lemma test_pair_probability:
  "collision_probability (test_finder Stochastic 1) test_physics (test_particle 0 0)
     (test_particle 2 0) (1 / 2) 1 (1 / 2) = 4"
  by (simp add: collision_probability_def scaled_cross_section_def test_finder_def test_physics_def)

lemma test_pair_time:
  "collision_time test_physics (test_particle i p) (test_particle j q) dt beam = dt / 2"
  by (simp add: test_physics_def)

lemma test_finder_simps:
  "coll_crit (test_finder crit n) = crit" "testparticles (test_finder crit n) = n"
  by (simp_all add: test_finder_def)

text \<open>
  C2, as the claim states it, fails: the message of the fatal error carries the text
  about stochastic rates and the probability, but none of the quantities the
  probability was computed from. Here the probability is 4, from the cross section 2,
  the relative velocity 1, the timestep 1 and the cell volume 1/2; the only number in
  the message is 4.
\<close>

theorem fatal_message_counterexample:
  "check_collision_two_part (test_finder Stochastic 1) test_physics (test_particle 0 0)
     (test_particle 2 0) 1 [] (1 / 2) (constant_draws 0) = Inl (Runtime_Error (two_part_message 4)) \<and>
   collision_probability (test_finder Stochastic 1) test_physics (test_particle 0 0)
     (test_particle 2 0) (1 / 2) 1 (1 / 2) = 4 \<and>
   scaled_cross_section (test_finder Stochastic 1) test_physics (test_particle 0 0)
     (test_particle 2 0) (1 / 2) = 2 \<and>
   2 \<notin> set (numbers_in (two_part_message 4)) \<and>
   1 \<notin> set (numbers_in (two_part_message 4)) \<and>
   1 / 2 \<notin> set (numbers_in (two_part_message 4))"
proof -
  have "check_collision_two_part (test_finder Stochastic 1) test_physics (test_particle 0 0)
     (test_particle 2 0) 1 [] (1 / 2) (constant_draws 0) = Inl (Runtime_Error (two_part_message 4))"
    by (simp add: two_part_after_checks [OF test_pair_passes] test_pair_time test_finder_simps
        test_pair_probability)
  moreover have "scaled_cross_section (test_finder Stochastic 1) test_physics (test_particle 0 0)
     (test_particle 2 0) (1 / 2) = 2"
    by (simp add: scaled_cross_section_def test_finder_def test_physics_def)
  moreover have "numbers_in (two_part_message 4) = [4]"
    by (simp add: two_part_message_def)
  ultimately show ?thesis
    by (simp add: test_pair_probability)
qed

text \<open>
  C2, amended. Under the stochastic criterion a pair that has passed the checks makes
  \<open>check_collision_two_part\<close> throw exactly when the computed probability exceeds 1,
  and a group that has reached the probability makes \<open>check_collision_multi_part\<close>
  throw exactly when its probability exceeds 1; the probability is never clamped. The
  message names the stochastic rates and carries the probability as its only number.
  With a probability of at most 1 the call returns: no action when the draw exceeds the
  probability, the action otherwise.
\<close>

theorem probability_overflow_is_fatal:
  "(coll_crit F = Stochastic \<and> passes_pair_checks F X a b dt beam cell_vol \<longrightarrow>
      check_collision_two_part F X a b dt beam cell_vol draws =
        (let t = collision_time X a b dt beam;
             prob = collision_probability F X a b t dt cell_vol in
         if prob > 1 then Inl (Runtime_Error (two_part_message prob))
         else if draws 0 > prob then Inr None
         else Inr (Some (ScatterAction a b t)))) \<and>
   (passes_multi_checks F X plist dt cell_vol draws \<longrightarrow>
      check_collision_multi_part F X plist dt cell_vol draws =
        (let act = ScatterActionMulti plist (dt * draws 0);
             p_nm = probability_multi X act dt cell_vol in
         if p_nm > 1 then Inl (Runtime_Error (multi_part_message p_nm))
         else if draws 1 > p_nm then Inr None
         else Inr (Some act))) \<and>
   numbers_in (two_part_message p) = [p] \<and> numbers_in (multi_part_message p) = [p]"
  by (simp add: two_part_after_checks passes_multi_checks_def check_collision_multi_part_def
      Let_def two_part_message_def multi_part_message_def)

theorem probability_overflow_is_fatal_witness:
  "coll_crit (test_finder Stochastic 1) = Stochastic \<and>
   passes_pair_checks (test_finder Stochastic 1) test_physics (test_particle 0 0)
     (test_particle 2 0) 1 [] (1 / 2) \<and>
   passes_multi_checks (test_finder Stochastic 1) test_physics
     [test_particle 0 0, test_particle 1 0, test_particle 2 0] 1 (1 / 2) (constant_draws 0) \<and>
   check_collision_two_part (test_finder Stochastic 1) test_physics (test_particle 0 0)
     (test_particle 2 0) 1 [] (1 / 2) (constant_draws 0) = Inl (Runtime_Error (two_part_message 4)) \<and>
   check_collision_multi_part (test_finder Stochastic 1) test_physics
     [test_particle 0 0, test_particle 1 0, test_particle 2 0] 1 (1 / 2) (constant_draws 0)
     = Inl (Runtime_Error (multi_part_message 4))"
proof -
  have m: "passes_multi_checks (test_finder Stochastic 1) test_physics
     [test_particle 0 0, test_particle 1 0, test_particle 2 0] 1 (1 / 2) (constant_draws 0)"
    by (simp add: passes_multi_checks_def test_finder_def test_physics_def)
  have p: "probability_multi test_physics act 1 (1 / 2) = 4" for act
    by (simp add: test_physics_def)
  show ?thesis
    using probability_overflow_is_fatal [where F = "test_finder Stochastic 1"
        and X = test_physics and a = "test_particle 0 0" and b = "test_particle 2 0"
        and dt = 1 and beam = "[]" and cell_vol = "1 / 2" and draws = "constant_draws 0"
        and plist = "[test_particle 0 0, test_particle 1 0, test_particle 2 0]"]
    by (simp add: test_pair_passes m p test_pair_time test_finder_simps test_pair_probability)
qed

lemma two_part_accept_time:
  assumes "check_collision_two_part F X a b dt beam cell_vol draws = Inr (Some act)"
  shows "act = ScatterAction a b (collision_time X a b dt beam) \<and>
         0 \<le> collision_time X a b dt beam \<and> collision_time X a b dt beam < dt"
  using assms unfolding check_collision_two_part_def Let_def
  by (auto split: if_splits sum.splits bool.splits)

lemma multi_part_accept_time:
  assumes "check_collision_multi_part F X plist dt cell_vol draws = Inr (Some act)"
  shows "act = ScatterActionMulti plist (dt * draws 0)"
  using assms unfolding check_collision_multi_part_def Let_def
  by (auto split: if_splits)

lemma test_geometric_accepts:
  "check_collision_two_part (test_finder Geometric 1) test_physics (test_particle 0 0)
     (test_particle 2 0) 1 [] cell_vol (constant_draws 0) =
     Inr (Some (ScatterAction (test_particle 0 0) (test_particle 2 0) (1 / 2)))"
  by (simp add: check_collision_two_part_def spectator_check_def distance_squared_def
     scaled_cross_section_def test_finder_def test_physics_def test_particle_def not_le)

text \<open>
  C3. For a timestep of positive length \<open>dt\<close>, every action returned by
  \<open>check_collision_two_part\<close> or \<open>check_collision_multi_part\<close> has a time \<open>t\<close> with
  \<open>0 \<le> t < dt\<close>. The pair evaluator rejects every other time itself, for any \<open>dt\<close>;
  the multi-body evaluator sets \<open>t = dt * u\<close>, where \<open>u\<close> is its first uniform draw, a
  number with \<open>0 \<le> u < 1\<close>.
\<close>

theorem accepted_time_in_step:
  "(check_collision_two_part F X a b dt beam cell_vol draws = Inr (Some act) \<longrightarrow>
      0 \<le> time_until_collision act \<and> time_until_collision act < dt) \<and>
   (check_collision_multi_part F X plist dt cell_vol draws = Inr (Some act') \<longrightarrow>
      time_until_collision act' = dt * draws 0 \<and>
      (0 < dt \<and> 0 \<le> draws 0 \<and> draws 0 < 1 \<longrightarrow>
         0 \<le> time_until_collision act' \<and> time_until_collision act' < dt))"
proof (intro conjI impI)
  assume "check_collision_two_part F X a b dt beam cell_vol draws = Inr (Some act)"
  from two_part_accept_time [OF this]
  show "0 \<le> time_until_collision act" and "time_until_collision act < dt" by simp_all
next
  assume "check_collision_multi_part F X plist dt cell_vol draws = Inr (Some act')"
  from multi_part_accept_time [OF this] have eq: "act' = ScatterActionMulti plist (dt * draws 0)" .
  then show "time_until_collision act' = dt * draws 0" by simp
  assume "0 < dt \<and> 0 \<le> draws 0 \<and> draws 0 < 1"
  then show "0 \<le> time_until_collision act'" and "time_until_collision act' < dt"
    using eq by simp_all
qed

theorem accepted_time_in_step_witness:
  "check_collision_two_part (test_finder Geometric 1) test_physics (test_particle 0 0)
     (test_particle 2 0) 1 [] 1 (constant_draws 0) =
     Inr (Some (ScatterAction (test_particle 0 0) (test_particle 2 0) (1 / 2))) \<and>
   check_collision_multi_part (test_finder Stochastic 1) test_physics
     [test_particle 0 0, test_particle 1 0, test_particle 2 0] 1 2 (constant_draws (1 / 8)) =
     Inr (Some (ScatterActionMulti [test_particle 0 0, test_particle 1 0, test_particle 2 0] (1 / 8))) \<and>
   (0::real) < 1 \<and> 0 \<le> constant_draws (1 / 8) 0 \<and> constant_draws (1 / 8) 0 < 1 \<and>
   time_until_collision (ScatterAction (test_particle 0 0) (test_particle 2 0) (1 / 2)) < 1 \<and>
   time_until_collision
     (ScatterActionMulti [test_particle 0 0, test_particle 1 0, test_particle 2 0] (1 / 8)) < 1"
proof -
  have m: "check_collision_multi_part (test_finder Stochastic 1) test_physics
     [test_particle 0 0, test_particle 1 0, test_particle 2 0] 1 2 (constant_draws (1 / 8)) =
     Inr (Some (ScatterActionMulti [test_particle 0 0, test_particle 1 0, test_particle 2 0] (1 / 8)))"
    by (simp add: check_collision_multi_part_def test_finder_def test_physics_def
        constant_draws_def)
  have u: "constant_draws v k = v" for v k
    by (simp add: constant_draws_def)
  show ?thesis
    using accepted_time_in_step [where F = "test_finder Geometric 1" and X = test_physics
        and a = "test_particle 0 0" and b = "test_particle 2 0" and dt = 1 and beam = "[]"
        and cell_vol = 1 and draws = "constant_draws 0"
        and act = "ScatterAction (test_particle 0 0) (test_particle 2 0) (1 / 2)"
        and plist = "[]" and act' = "ScatterActionMulti [] 0"]
      accepted_time_in_step [where F = "test_finder Stochastic 1" and X = test_physics
        and a = "test_particle 0 0" and b = "test_particle 2 0" and beam = "[]"
        and act = "ScatterAction (test_particle 0 0) (test_particle 2 0) (1 / 2)"
        and plist = "[test_particle 0 0, test_particle 1 0, test_particle 2 0]" and dt = 1
        and cell_vol = 2 and draws = "constant_draws (1 / 8)"
        and act' = "ScatterActionMulti
           [test_particle 0 0, test_particle 1 0, test_particle 2 0] (1 / 8)"]
    by (simp add: test_geometric_accepts m u)
qed

text \<open>
  C4, as the claim states it, fails for the pair evaluator: the cell-volume gate is
  guarded by the stochastic criterion. Under the geometric criterion a pair is accepted
  with the cell volume 0, below the threshold.
\<close>

theorem cell_volume_gate_counterexample:
  "(0::real) < really_small test_physics \<and>
   check_collision_two_part (test_finder Geometric 1) test_physics (test_particle 0 0)
     (test_particle 2 0) 1 [] 0 (constant_draws 0) =
     Inr (Some (ScatterAction (test_particle 0 0) (test_particle 2 0) (1 / 2)))"
  by (simp add: check_collision_two_part_def spectator_check_def distance_squared_def
     scaled_cross_section_def test_finder_def test_physics_def test_particle_def not_le)

lemma pair_ignores_cell_volume:
  assumes "coll_crit F \<noteq> Stochastic"
  shows "check_collision_two_part F X a b dt beam cell_vol draws =
         check_collision_two_part F X a b dt beam cell_vol' draws"
  using assms unfolding check_collision_two_part_def Let_def
  by (simp split: sum.split bool.split)

text \<open>
  C4, amended. With a cell volume below \<open>really_small\<close>, \<open>check_collision_multi_part\<close>
  returns no action and raises no error for any group, and so does
  \<open>check_collision_two_part\<close> under the stochastic criterion, for any two particles with
  non-negative ids (the flag vector holding an entry for every id below \<open>N_tot\<close>) and
  any kinematics. Under the geometric and the covariant criterion the pair evaluator
  ignores the cell volume: its result is the same for every other cell volume.
\<close>

theorem small_cell_rejects:
  assumes "cell_vol < really_small X"
  shows "check_collision_multi_part F X plist dt cell_vol draws = Inr None \<and>
     (coll_crit F = Stochastic \<and> ids_in_range F a b \<longrightarrow>
        check_collision_two_part F X a b dt beam cell_vol draws = Inr None) \<and>
     (coll_crit F \<noteq> Stochastic \<longrightarrow>
        check_collision_two_part F X a b dt beam cell_vol draws =
        check_collision_two_part F X a b dt beam cell_vol' draws)"
proof (intro conjI impI)
  assume "coll_crit F \<noteq> Stochastic"
  then show "check_collision_two_part F X a b dt beam cell_vol draws =
        check_collision_two_part F X a b dt beam cell_vol' draws"
    by (rule pair_ignores_cell_volume)
next
  show "check_collision_multi_part F X plist dt cell_vol draws = Inr None"
    using assms by (simp add: check_collision_multi_part_def)
next
  assume h: "coll_crit F = Stochastic \<and> ids_in_range F a b"
  then obtain r where r: "spectator_check F a b = Inr r"
    using spectator_check_in_range by blast
  from h have "\<not> id_number a < 0" "\<not> id_number b < 0" by (auto simp: ids_in_range_def)
  then show "check_collision_two_part F X a b dt beam cell_vol draws = Inr None"
    using assms h r by (cases r) (simp_all add: check_collision_two_part_def)
qed

theorem small_cell_rejects_witness:
  "(0::real) < really_small test_physics \<and>
   coll_crit (test_finder Stochastic 1) = Stochastic \<and>
   ids_in_range (test_finder Stochastic 1) (test_particle 0 0) (test_particle 2 0) \<and>
   check_collision_multi_part (test_finder Stochastic 1) test_physics
     [test_particle 0 0, test_particle 1 0, test_particle 2 0] 1 0 (constant_draws 0) = Inr None \<and>
   check_collision_two_part (test_finder Stochastic 1) test_physics (test_particle 0 0)
     (test_particle 2 0) 1 [] 0 (constant_draws 0) = Inr None \<and>
   coll_crit (test_finder Geometric 1) \<noteq> Stochastic \<and>
   check_collision_two_part (test_finder Geometric 1) test_physics (test_particle 0 0)
     (test_particle 2 0) 1 [] 0 (constant_draws 0) =
   check_collision_two_part (test_finder Geometric 1) test_physics (test_particle 0 0)
     (test_particle 2 0) 1 [] 1 (constant_draws 0)"
proof -
  have small: "(0::real) < really_small test_physics"
    by (simp add: test_physics_def)
  have ids: "ids_in_range (test_finder Stochastic 1) (test_particle 0 0) (test_particle 2 0)"
    by (simp add: ids_in_range_def test_finder_def test_particle_def)
  have "check_collision_two_part (test_finder Geometric 1) test_physics (test_particle 0 0)
     (test_particle 2 0) 1 [] 0 (constant_draws 0) =
   check_collision_two_part (test_finder Geometric 1) test_physics (test_particle 0 0)
     (test_particle 2 0) 1 [] 1 (constant_draws 0)"
    using small_cell_rejects [OF small, where F = "test_finder Geometric 1"
        and a = "test_particle 0 0" and b = "test_particle 2 0" and dt = 1 and beam = "[]"
        and draws = "constant_draws 0" and cell_vol' = 1
        and plist = "[test_particle 0 0, test_particle 1 0, test_particle 2 0]"]
    by (simp add: test_finder_simps)
  then show ?thesis
    using small_cell_rejects [OF small, where F = "test_finder Stochastic 1"
        and a = "test_particle 0 0" and b = "test_particle 2 0" and dt = 1 and beam = "[]"
        and draws = "constant_draws 0" and cell_vol' = 1
        and plist = "[test_particle 0 0, test_particle 1 0, test_particle 2 0]"]
    by (simp add: small ids test_finder_simps)
qed

text \<open>
  C5, as the claim states it, fails: the cell-volume gate comes before the test of the
  test-particle number. With two test particles and the cell volume 0 the call returns
  no action and raises nothing.
\<close>

theorem testparticles_counterexample:
  "testparticles (test_finder Stochastic 2) \<noteq> 1 \<and>
   check_collision_multi_part (test_finder Stochastic 2) test_physics
     [test_particle 0 0, test_particle 1 0, test_particle 2 0] 1 0 (constant_draws 0) = Inr None"
  by (simp add: check_collision_multi_part_def test_finder_def test_physics_def)

text \<open>
  C5, amended. A call of \<open>check_collision_multi_part\<close> with a test-particle number other
  than 1 and a cell volume of at least \<open>really_small\<close> raises the fatal error, whatever
  the other inputs; with a smaller cell volume it returns no action.
\<close>

theorem testparticles_fatal:
  assumes "testparticles F \<noteq> 1"
  shows "check_collision_multi_part F X plist dt cell_vol draws =
     (if cell_vol < really_small X then Inr None else Inl (Runtime_Error testparticles_message))"
  using assms by (simp add: check_collision_multi_part_def)

theorem testparticles_fatal_witness:
  "testparticles (test_finder Stochastic 2) \<noteq> 1 \<and>
   check_collision_multi_part (test_finder Stochastic 2) test_physics
     [test_particle 0 0, test_particle 1 0, test_particle 2 0] 1 1 (constant_draws 0) =
     Inl (Runtime_Error testparticles_message)"
proof -
  have n: "testparticles (test_finder Stochastic 2) \<noteq> 1"
    by (simp add: test_finder_def)
  show ?thesis
    using testparticles_fatal [OF n, where X = test_physics and dt = 1 and cell_vol = 1
        and draws = "constant_draws 0"
        and plist = "[test_particle 0 0, test_particle 1 0, test_particle 2 0]"]
    by (simp add: n test_physics_def)
qed

text \<open>
  C6. Under the geometric or the covariant criterion, a pair that has passed the
  spectator, timing and distance pre-filter checks gets no action when the two
  particles carry equal nonzero last-process identifiers; otherwise the action is
  returned if and only if the squared transverse distance of the criterion is strictly
  below the scaled total cross section divided by \<open>\<pi>\<close>.
\<close>

theorem geometric_decision:
  assumes "coll_crit F = Geometric \<or> coll_crit F = Covariant"
    and "passes_pair_checks F X a b dt beam cell_vol"
  shows "check_collision_two_part F X a b dt beam cell_vol draws =
     (let t = collision_time X a b dt beam;
          act = ScatterAction a b t in
      if id_process a \<noteq> 0 \<and> id_process a = id_process b then Inr None
      else if distance_squared F X act < scaled_cross_section F X a b t / pi then Inr (Some act)
      else Inr None)"
proof -
  from assms(1) have "coll_crit F \<noteq> Stochastic" by auto
  then show ?thesis
    by (auto simp: two_part_after_checks [OF assms(2)] Let_def word_gt_0 not_less)
qed

theorem geometric_decision_witness:
  "coll_crit (test_finder Covariant 1) = Covariant \<and>
   passes_pair_checks (test_finder Covariant 1) test_physics (test_particle 0 7)
     (test_particle 2 7) 1 [] 1 \<and>
   passes_pair_checks (test_finder Covariant 1) test_physics (test_particle 0 7)
     (test_particle 2 8) 1 [] 1 \<and>
   check_collision_two_part (test_finder Covariant 1) test_physics (test_particle 0 7)
     (test_particle 2 7) 1 [] 1 (constant_draws 0) = Inr None \<and>
   check_collision_two_part (test_finder Covariant 1) test_physics (test_particle 0 7)
     (test_particle 2 8) 1 [] 1 (constant_draws 0) =
     Inr (Some (ScatterAction (test_particle 0 7) (test_particle 2 8) (1 / 2)))"
proof -
  have c: "coll_crit (test_finder Covariant 1) = Geometric \<or>
           coll_crit (test_finder Covariant 1) = Covariant"
    by (simp add: test_finder_def)
  have p: "passes_pair_checks (test_finder Covariant 1) test_physics (test_particle 0 7)
     (test_particle 2 q) 1 [] 1" for q
    by (simp add: passes_pair_checks_def test_finder_def test_physics_def test_particle_def
        spectator_check_def distance_squared_def)
  have d: "distance_squared (test_finder Covariant 1) test_physics act = 0" for act
    by (simp add: distance_squared_def test_finder_def test_physics_def)
  have x: "scaled_cross_section (test_finder Covariant 1) test_physics a b t = 2" for a b t
    by (simp add: scaled_cross_section_def test_finder_def test_physics_def)
  have i: "id_process (test_particle j q) = q" for j q
    by (simp add: test_particle_def)
  show ?thesis
    using geometric_decision [OF c p, where q1 = 7 and draws = "constant_draws 0"]
      geometric_decision [OF c p, where q1 = 8 and draws = "constant_draws 0"]
    by (simp add: p d x i test_pair_time test_finder_simps)
qed

section \<open>Properties of the deduplication\<close>

lemma deduplicate_loop_names:
  "set (map fs_name (deduplicate_loop xs)) \<subseteq> set (map fs_name xs)"
  by (induction xs rule: deduplicate_loop.induct) auto

lemma deduplicate_loop_strict:
  "sorted (map fs_name xs) \<Longrightarrow> sorted_wrt (<) (map fs_name (deduplicate_loop xs))"
proof (induction xs rule: deduplicate_loop.induct)
  case (1 a b rest)
  show ?case
  proof (cases "fs_name a = fs_name b")
    case True
    with 1 show ?thesis by simp
  next
    case False
    have "\<forall>n \<in> set (map fs_name (deduplicate_loop (b # rest))). fs_name a < n"
    proof
      fix n assume "n \<in> set (map fs_name (deduplicate_loop (b # rest)))"
      then have "n \<in> set (map fs_name (b # rest))" using deduplicate_loop_names by blast
      then have "fs_name b \<le> n" using 1(3) by auto
      moreover have "fs_name a \<le> fs_name b" using 1(3) by simp
      ultimately show "fs_name a < n" using False by simp
    qed
    with 1 False show ?thesis by simp
  qed
qed simp_all

lemma deduplicate_loop_id:
  "sorted_wrt (<) (map fs_name xs) \<Longrightarrow> deduplicate_loop xs = xs"
  by (induction xs rule: deduplicate_loop.induct) auto

lemma sort_key_sorted_id: "sorted (map f xs) \<Longrightarrow> sort_key f xs = xs"
  by (induction xs) (auto simp: insort_is_Cons)

text \<open>
  C9. \<open>deduplicate\<close> is idempotent: applying it twice gives the list that applying it
  once gives, so it leaves a deduplicated list as it is.
\<close>

theorem deduplicate_idempotent: "deduplicate (deduplicate xs) = deduplicate xs"
proof -
  have s: "sorted_wrt (<) (map fs_name (deduplicate xs))"
    unfolding deduplicate_def by (rule deduplicate_loop_strict) simp
  then have "sorted (map fs_name (deduplicate xs))"
    by (rule strict_sorted_imp_sorted)
  then have "sort_key fs_name (deduplicate xs) = deduplicate xs"
    by (rule sort_key_sorted_id)
  then show ?thesis
    using s by (simp add: deduplicate_def [of "deduplicate xs"] deduplicate_loop_id)
qed

section \<open>Properties of the momentum scan\<close>

lemma scan_momenta_in_range:
  "xs \<noteq> [] \<Longrightarrow> \<forall>i \<in> set js. i < length xs \<Longrightarrow>
   scan_momenta pcm xs js = (map (\<lambda>i. pcm (xs ! i)) js, None)"
  by (induction js) auto

lemma scan_momenta_all: "xs \<noteq> [] \<Longrightarrow> scan_momenta pcm xs [0..<length xs] = (map pcm xs, None)"
proof -
  assume "xs \<noteq> []"
  then have "scan_momenta pcm xs [0..<length xs] = (map (\<lambda>i. pcm (xs ! i)) [0..<length xs], None)"
    by (rule scan_momenta_in_range) simp
  moreover have "map (\<lambda>i. pcm (xs ! i)) [0..<length xs] = map pcm (map ((!) xs) [0..<length xs])"
    by simp
  ultimately show ?thesis
    by (simp only: map_nth)
qed

lemma distinct_remdups_adj_sorted: "sorted xs \<Longrightarrow> distinct (remdups_adj xs)"
  by (induction xs rule: remdups_adj.induct) auto

text \<open>
  What the call does to the caller's vector: a non-empty \<open>plab\<close> is left sorted ascending
  and free of duplicate values, with the values it had. When it holds no value twice,
  the momentum points scanned are those of the sorted vector, as many as \<open>plab\<close> is long.
\<close>

lemma plab_sorted_and_unique:
  assumes "plab \<noteq> []"
  shows "fst (dump_cross_sections_scan pcm plab) = remdups_adj (sort plab) \<and>
     sorted (fst (dump_cross_sections_scan pcm plab)) \<and>
     distinct (fst (dump_cross_sections_scan pcm plab)) \<and>
     set (fst (dump_cross_sections_scan pcm plab)) = set plab \<and>
     (distinct plab \<longrightarrow>
        snd (dump_cross_sections_scan pcm plab) = (map pcm (sort plab), None) \<and>
        length (fst (snd (dump_cross_sections_scan pcm plab))) = length plab)"
proof -
  have f: "fst (dump_cross_sections_scan pcm plab) = remdups_adj (sort plab)"
    using assms by (simp add: dump_cross_sections_scan_def prepare_plab_def)
  have d: "snd (dump_cross_sections_scan pcm plab) = (map pcm (sort plab), None)"
    if "distinct plab"
  proof -
    from that have r: "remdups_adj (sort plab) = sort plab"
      by (simp add: remdups_adj_distinct)
    have "sort plab \<noteq> []" using assms by (metis length_sort length_0_conv)
    then have "scan_momenta pcm (sort plab) [0..<length (sort plab)] = (map pcm (sort plab), None)"
      by (rule scan_momenta_all)
    then show ?thesis
      using assms by (simp add: dump_cross_sections_scan_def prepare_plab_def r)
  qed
  show ?thesis
    using d by (simp add: f sorted_remdups_adj distinct_remdups_adj_sorted)
qed

text \<open>
  C10. Called with a non-empty \<open>plab\<close>, \<open>dump_cross_sections\<close> sorts the caller's vector
  and erases its duplicate values, and it is to scan as many momentum points as \<open>plab\<close>
  was long before the duplicates were removed. The code misses the second part: the
  loop bound is taken before the erasure, and \<^verbatim>\<open>plab.at(i)\<close> throws as soon as \<open>i\<close>
  reaches the length after it. For \<open>plab = [1, 1]\<close> the vector becomes \<open>[1]\<close>, one
  momentum point is scanned instead of two, and the call ends with
  \<^verbatim>\<open>std::out_of_range\<close>.
\<close>

theorem duplicate_plab_scan_throws:
  "dump_cross_sections_scan test_momentum [1, 1] = ([1], [1 / 2], Some Out_Of_Range) \<and>
   fst (prepare_plab [1, 1]) = length [1, 1 :: real] \<and>
   length [1 / 2 :: real] \<noteq> length [1, 1 :: real]"
  by (simp add: dump_cross_sections_scan_def prepare_plab_def test_momentum_def upt_rec)

section \<open>Properties of the decay tree\<close>

lemma node_selectors [simp]:
  "node_name (set_weight n w) = node_name n" "node_weight (set_weight n w) = w"
  "initial_particles (set_weight n w) = initial_particles n"
  "final_particles (set_weight n w) = final_particles n"
  "state (set_weight n w) = state n" "children (set_weight n w) = children n"
  "node_name (set_children n cs) = node_name n" "node_weight (set_children n cs) = node_weight n"
  "initial_particles (set_children n cs) = initial_particles n"
  "final_particles (set_children n cs) = final_particles n"
  "state (set_children n cs) = state n" "children (set_children n cs) = cs"
  by (simp_all add: set_weight_def set_children_def)

lemma set_weight_twice [simp]: "set_weight (set_weight n v) w = set_weight n w"
  by (simp add: set_weight_def)

lemma set_children_twice [simp]: "set_children (set_children n cs) ds = set_children n ds"
  by (simp add: set_children_def)

lemma set_children_same [simp]: "set_children n (children n) = n"
  by (simp add: set_children_def)

lemma foldl_add_sum: "foldl (\<lambda>m p. m + f p) (a::real) xs = a + sum_list (map f xs)"
  by (induction xs arbitrary: a) simp_all

lemma foldl_sub_sum: "foldl (\<lambda>s p. s - f p) (a::real) xs = a - sum_list (map f xs)"
  by (induction xs arbitrary: a) simp_all

lemma final_state_mass_sum:
  "final_state_mass T d = sum_list (map (\<lambda>q. mass (T q)) (particle_types d))"
  by (simp add: final_state_mass_def foldl_add_sum)

lemma sqrts_minus_masses_sum:
  "sqrts_minus_masses T sqrts st = sqrts - sum_list (map (\<lambda>q. mass (T q)) st)"
  by (simp add: sqrts_minus_masses_def foldl_sub_sum)

lemma decay_loop_all_skipped:
  "\<forall>d \<in> set ds. final_state_mass T d > sd \<Longrightarrow>
   decay_loop rec T nrm sd p ds node can = Some (Inr (node, can))"
  by (induction ds) simp_all

lemma state_loop_stable:
  "\<forall>q \<in> set pre. is_stable (T q) \<Longrightarrow> state_loop rec T nrm smm pre node = Some (Inr node)"
  by (induction pre) simp_all

lemma state_loop_stuck:
  assumes "\<not> is_stable (T p)"
    and "\<forall>d \<in> set (decay_mode_list (T p)). final_state_mass T d > smm + mass (T p)"
  shows "state_loop rec T nrm smm (pre @ p # post) node =
           zero_weight (state_loop rec T nrm smm pre node)"
proof (induction pre arbitrary: node)
  case Nil
  show ?case
    using assms by (simp add: decay_loop_all_skipped zero_weight_def)
next
  case (Cons q pre)
  show ?case
  proof (cases "is_stable (T q)")
    case True
    then show ?thesis by (simp add: Cons.IH)
  next
    case False
    show ?thesis
    proof (cases "decay_loop rec T nrm (smm + mass (T q)) q (decay_mode_list (T q)) node False")
      case None
      with False show ?thesis by (simp add: zero_weight_def)
    next
      case (Some r)
      show ?thesis
      proof (cases r)
        case (Inl e)
        with Some False show ?thesis by (simp add: zero_weight_def)
      next
        case (Inr nc)
        obtain node1 can where nc: "nc = (node1, can)" by (cases nc)
        show ?thesis
        proof (cases can)
          case True
          with Some Inr nc False show ?thesis by (simp add: Cons.IH)
        next
          case False': False
          with Some Inr nc False show ?thesis by (simp add: zero_weight_def)
        qed
      qed
    qed
  qed
qed

lemma zero_weight_Some:
  "zero_weight r = Some (Inr n) \<Longrightarrow> node_weight n = 0"
  by (cases r) (auto simp: zero_weight_def map_sum_def split: sum.splits)

text \<open>
  C7. Let the state of a node contain an unstable particle type \<open>p\<close> none of whose decay
  modes has a summed pole mass of the products of at most the energy that remains after
  the pole masses of all other particles of the state are subtracted. Then \<open>add_decays\<close>
  ends at \<open>p\<close>: its result is the result of the loop over the state entries in front of
  \<open>p\<close>, with the weight of the node set to zero; nothing is added for \<open>p\<close> or for an
  entry behind it. So whenever the call returns, the weight is zero, and when no
  unstable particle stands in front of \<open>p\<close>, the call returns the node as it was, with the
  weight zero and no child added, for every bound of the recursion depth.
\<close>

theorem stuck_particle_zeroes_weight:
  assumes "state node = pre @ p # post"
    and "\<not> is_stable (T p)"
    and "\<forall>d \<in> set (decay_mode_list (T p)).
           \<not> sum_list (map (\<lambda>q. mass (T q)) (particle_types d))
               \<le> sqrts - sum_list (map (\<lambda>q. mass (T q)) (pre @ post))"
  shows "add_decays (Suc depth) T node sqrts =
           zero_weight (state_loop (add_decays depth T) T (norm_of T (state node))
              (sqrts_minus_masses T sqrts (state node)) pre node) \<and>
         (add_decays (Suc depth) T node sqrts = Some (Inr node') \<longrightarrow> node_weight node' = 0) \<and>
         ((\<forall>q \<in> set pre. is_stable (T q)) \<longrightarrow>
            add_decays (Suc depth) T node sqrts = Some (Inr (set_weight node 0)))"
proof -
  let ?smm = "sqrts_minus_masses T sqrts (state node)"
  have "\<forall>d \<in> set (decay_mode_list (T p)). final_state_mass T d > ?smm + mass (T p)"
  proof
    fix d assume "d \<in> set (decay_mode_list (T p))"
    with assms(3) have "sqrts - sum_list (map (\<lambda>q. mass (T q)) (pre @ post))
        < sum_list (map (\<lambda>q. mass (T q)) (particle_types d))"
      by (simp add: not_le)
    moreover have "?smm + mass (T p) = sqrts - sum_list (map (\<lambda>q. mass (T q)) (pre @ post))"
      by (simp add: sqrts_minus_masses_sum assms(1))
    ultimately show "final_state_mass T d > ?smm + mass (T p)"
      by (simp only: final_state_mass_sum)
  qed
  from state_loop_stuck [OF assms(2) this]
  have eq: "add_decays (Suc depth) T node sqrts =
           zero_weight (state_loop (add_decays depth T) T (norm_of T (state node)) ?smm pre node)"
    by (simp add: assms(1))
  show ?thesis
    using eq by (auto simp: zero_weight_Some state_loop_stable zero_weight_def)
qed

theorem stuck_particle_zeroes_weight_witness:
  "state (test_root [3, 1]) = [3] @ 1 # [] \<and> \<not> is_stable (test_types 1) \<and>
   add_decays (Suc (Suc 0)) test_types (test_root [3, 1]) 2 =
     Some (Inr (Node ''root'' 0 [3, 1] [3, 1] [3, 1]
        [Node ''[rho->pipi]'' 0 [3] [0, 0] [1, 0, 0] []])) \<and>
   add_decays (Suc 0) test_types (test_root [1]) (3 / 2) =
     Some (Inr (set_weight (test_root [1]) 0))"
proof -
  have s: "state (test_root [3, 1]) = [3] @ 1 # []" "state (test_root [1]) = [] @ 1 # []"
    by (simp_all add: test_root_def)
  have u: "\<not> is_stable (test_types 1)"
    by (simp add: test_types_def)
  have d: "\<forall>d \<in> set (decay_mode_list (test_types 1)).
           \<not> sum_list (map (\<lambda>q. mass (test_types q)) (particle_types d))
               \<le> 2 - sum_list (map (\<lambda>q. mass (test_types q)) ([3] @ []))"
    "\<forall>d \<in> set (decay_mode_list (test_types 1)).
           \<not> sum_list (map (\<lambda>q. mass (test_types q)) (particle_types d))
               \<le> 3 / 2 - sum_list (map (\<lambda>q. mass (test_types q)) ([] @ []))"
    by (simp_all add: test_types_def)
  have e: "add_decays (Suc (Suc 0)) test_types (test_root [3, 1]) 2 =
     Some (Inr (Node ''root'' 0 [3, 1] [3, 1] [3, 1]
        [Node ''[rho->pipi]'' 0 [3] [0, 0] [1, 0, 0] []]))"
    by (simp add: test_types_def test_root_def norm_of_def n_unstable_def sqrts_minus_masses_def
        add_action_def make_decay_name_def final_state_mass_def set_children_def set_weight_def)
  have "add_decays (Suc 0) test_types (test_root [1]) (3 / 2) =
     Some (Inr (set_weight (test_root [1]) 0))"
    using stuck_particle_zeroes_weight [OF s(2) u d(2), where depth = 0
        and node' = "test_root [1]", THEN conjunct2, THEN conjunct2]
    by (simp del: add_decays.simps)
  moreover have "node_weight (Node ''root'' 0 [3, 1] [3, 1] [3, 1]
        [Node ''[rho->pipi]'' 0 [3] [0, 0] [1, 0, 0] []]) = 0"
    using stuck_particle_zeroes_weight [OF s(1) u d(1), where depth = "Suc 0"
        and node' = "Node ''root'' 0 [3, 1] [3, 1] [3, 1]
          [Node ''[rho->pipi]'' 0 [3] [0, 0] [1, 0, 0] []]", THEN conjunct2, THEN conjunct1] e
    by (rule mp)
  ultimately show ?thesis
    using s u e by (simp del: add_decays.simps)
qed

lemma erase_each_foldl:
  "erase_each ps st = Inr st' \<Longrightarrow> st' = foldl (\<lambda>s p. remove1 p s) st ps"
  by (induction ps arbitrary: st) (auto split: if_splits)

lemma add_action_result:
  assumes "add_action T node nm w ini fin = Inr node'"
  shows "node' = set_children node (children node @
           [Node nm w ini fin
              (sort_key (\<lambda>p. name (T p)) (foldl (\<lambda>s p. remove1 p s) (state node) ini @ fin)) []])"
  using assms
  by (auto simp: add_action_def Let_def split: sum.splits dest: erase_each_foldl)

lemma tree_ok_children:
  "tree_ok T n = (\<forall>c \<in> set (children n). child_state_ok T (state n) c \<and> tree_ok T c)"
  by (cases n) simp

lemma tree_ok_set_children:
  "tree_ok T (set_children n cs) = (\<forall>c \<in> set cs. child_state_ok T (state n) c \<and> tree_ok T c)"
  by (simp add: set_children_def)

lemma tree_ok_set_weight: "tree_ok T (set_weight n w) = tree_ok T n"
  by (cases n) (simp add: set_weight_def)

lemma grows_keeps:
  "grows T n n' \<Longrightarrow>
     state n' = state n \<and> initial_particles n' = initial_particles n \<and>
     final_particles n' = final_particles n \<and> (tree_ok T n \<longrightarrow> tree_ok T n')"
proof (induction rule: grows.induct)
  case (grows_add n nm w ini fin n')
  from add_action_result [OF grows_add]
  show ?case
    by (auto simp: tree_ok_children [of T n] tree_ok_set_children child_state_ok_def)
next
  case (grows_child c c' i n)
  have sub: "set ((children n)[i := c']) \<subseteq> insert c' (set (children n))"
    by (rule set_update_subset_insert)
  have c: "c \<in> set (children n)"
    using grows_child.hyps by auto
  have "tree_ok T (set_children n ((children n)[i := c']))" if ok: "tree_ok T n"
  proof -
    from ok c have okc: "child_state_ok T (state n) c" "tree_ok T c"
      by (auto simp: tree_ok_children [of T n])
    with grows_child.IH have "child_state_ok T (state n) c'" "tree_ok T c'"
      by (simp_all add: child_state_ok_def)
    with ok sub show ?thesis
      by (auto simp: tree_ok_children [of T n] tree_ok_set_children)
  qed
  then show ?case by simp
next
  case (grows_weight n w)
  show ?case
    by (simp add: tree_ok_set_weight)
qed

lemma grows_star_keeps:
  "(grows T)\<^sup>*\<^sup>* n n' \<Longrightarrow> state n' = state n \<and> (tree_ok T n \<longrightarrow> tree_ok T n')"
  by (induction rule: rtranclp_induct) (auto dest: grows_keeps)

lemma grows_star_child:
  assumes "(grows T)\<^sup>*\<^sup>* c c'" and "i < length (children n)" and "children n ! i = c"
  shows "(grows T)\<^sup>*\<^sup>* n (set_children n ((children n)[i := c']))"
  using assms
proof (induction rule: rtranclp_induct)
  case base
  then have "(children n)[i := c] = children n"
    by (metis list_update_id)
  then show ?case by simp
next
  case (step c1 c2)
  let ?m = "set_children n ((children n)[i := c1])"
  have "grows T ?m (set_children ?m ((children ?m)[i := c2]))"
    by (rule grows_child [OF step.hyps(2)]) (simp_all add: step.prems)
  then have "grows T ?m (set_children n ((children n)[i := c2]))"
    by simp
  with step show ?case by auto
qed

lemma update_last: "xs \<noteq> [] \<Longrightarrow> xs[length xs - 1 := y] = butlast xs @ [y]"
  by (induction xs rule: rev_induct) simp_all

lemma grows_star_last:
  assumes "(grows T)\<^sup>*\<^sup>* (last (children n)) c'" and "children n \<noteq> []"
  shows "(grows T)\<^sup>*\<^sup>* n (set_children n (butlast (children n) @ [c']))"
proof -
  let ?i = "length (children n) - 1"
  have i: "?i < length (children n)" using assms(2) by simp
  have l: "children n ! ?i = last (children n)"
    using assms(2) by (simp add: last_conv_nth)
  have "(children n)[?i := c'] = butlast (children n) @ [c']"
    using assms(2) by (rule update_last)
  with grows_star_child [OF assms(1) i l] show ?thesis by simp
qed

lemma decay_loop_grows:
  assumes rec: "\<And>m s m'. rec m s = Some (Inr m') \<Longrightarrow> (grows T)\<^sup>*\<^sup>* m m'"
  shows "decay_loop rec T nrm sd p ds node can = Some (Inr (node', can')) \<Longrightarrow>
         (grows T)\<^sup>*\<^sup>* node node'"
proof (induction ds arbitrary: node can)
  case Nil
  then show ?case by simp
next
  case (Cons d ds)
  show ?case
  proof (cases "final_state_mass T d > sd")
    case True
    with Cons show ?thesis by simp
  next
    case False
    obtain nm parts where mk: "make_decay_name T (name (T p)) d [] = (nm, parts)"
      by (cases "make_decay_name T (name (T p)) d []")
    from Cons.prems False mk obtain node1 new_node where
      a: "add_action T node nm (nrm * weight d) [p] parts = Inr node1"
      and r: "rec (last (children node1)) sd = Some (Inr new_node)"
      and l: "decay_loop rec T nrm sd p ds
                (set_children node1 (butlast (children node1) @ [new_node])) True
              = Some (Inr (node', can'))"
      by (auto split: sum.splits option.splits)
    from a have g1: "grows T node node1" by (rule grows_add)
    from add_action_result [OF a] have ne: "children node1 \<noteq> []" by simp
    from rec [OF r] ne
    have g2: "(grows T)\<^sup>*\<^sup>* node1 (set_children node1 (butlast (children node1) @ [new_node]))"
      by (rule grows_star_last)
    from Cons.IH [OF l] g1 g2 show ?thesis by auto
  qed
qed

lemma state_loop_grows:
  assumes rec: "\<And>m s m'. rec m s = Some (Inr m') \<Longrightarrow> (grows T)\<^sup>*\<^sup>* m m'"
  shows "state_loop rec T nrm smm ps node = Some (Inr node') \<Longrightarrow> (grows T)\<^sup>*\<^sup>* node node'"
proof (induction ps arbitrary: node)
  case Nil
  then show ?case by simp
next
  case (Cons q ps)
  show ?case
  proof (cases "is_stable (T q)")
    case True
    with Cons show ?thesis by simp
  next
    case False
    from Cons.prems False obtain node1 can where
      d: "decay_loop rec T nrm (smm + mass (T q)) q (decay_mode_list (T q)) node False
            = Some (Inr (node1, can))"
      and k: "if \<not> can then node' = set_weight node1 0
              else state_loop rec T nrm smm ps node1 = Some (Inr node')"
      by (auto simp: Let_def split: option.splits sum.splits if_splits)
    from decay_loop_grows [OF rec d] have g: "(grows T)\<^sup>*\<^sup>* node node1" .
    show ?thesis
    proof (cases can)
      case True
      with k have "state_loop rec T nrm smm ps node1 = Some (Inr node')" by simp
      from g Cons.IH [OF this] show ?thesis by (rule rtranclp_trans)
    next
      case False
      with k have "grows T node1 node'" by (simp add: grows_weight)
      with g show ?thesis by auto
    qed
  qed
qed

lemma add_decays_grows:
  "add_decays depth T node sqrts = Some (Inr node') \<Longrightarrow> (grows T)\<^sup>*\<^sup>* node node'"
proof (induction depth arbitrary: node sqrts node')
  case 0
  then show ?case by simp
next
  case (Suc depth)
  from Suc.prems show ?case
    by (simp add: state_loop_grows [OF Suc.IH])
qed

text \<open>
  C8. The child that \<open>add_action\<close> appends has as its state the parent's state with the
  child's initial particles removed and its final particles appended, sorted ascending
  by the name of the particle type. Hence in every tree built from a node without
  children by adding actions, at the node or below it, each node other than the root
  stands in this relation to its parent; \<open>add_decays\<close> builds its trees this way.
\<close>

theorem child_state_invariant:
  "(add_action T node nm w ini fin = Inr node' \<longrightarrow>
      children node' = children node @ [last (children node')] \<and>
      initial_particles (last (children node')) = ini \<and>
      final_particles (last (children node')) = fin \<and>
      state (last (children node')) =
        sort_key (\<lambda>p. name (T p)) (foldl (\<lambda>s p. remove1 p s) (state node) ini @ fin) \<and>
      sorted (map (\<lambda>p. name (T p)) (state (last (children node'))))) \<and>
   (children r0 = [] \<and> (grows T)\<^sup>*\<^sup>* r0 n \<longrightarrow> tree_ok T n) \<and>
   (tree_ok T m \<and> add_decays depth T m sqrts = Some (Inr m') \<longrightarrow> tree_ok T m')"
proof (intro conjI impI)
  assume "children r0 = [] \<and> (grows T)\<^sup>*\<^sup>* r0 n"
  then have "tree_ok T r0" and "(grows T)\<^sup>*\<^sup>* r0 n"
    by (simp_all add: tree_ok_children [of T r0])
  then show "tree_ok T n" using grows_star_keeps by blast
next
  assume "tree_ok T m \<and> add_decays depth T m sqrts = Some (Inr m')"
  then show "tree_ok T m'" using add_decays_grows grows_star_keeps by blast
qed (auto dest!: add_action_result)

theorem child_state_invariant_witness:
  "add_action test_types (test_root [3, 1]) ''d'' 1 [3] [0, 0] =
     Inr (Node ''root'' 5 [3, 1] [3, 1] [3, 1] [Node ''d'' 1 [3] [0, 0] [1, 0, 0] []]) \<and>
   children (test_root [3, 1]) = [] \<and>
   (grows test_types)\<^sup>*\<^sup>* (test_root [3, 1])
     (Node ''root'' 5 [3, 1] [3, 1] [3, 1] [Node ''d'' 1 [3] [0, 0] [1, 0, 0] []]) \<and>
   tree_ok test_types (Node ''root'' 5 [3, 1] [3, 1] [3, 1] [Node ''d'' 1 [3] [0, 0] [1, 0, 0] []]) \<and>
   tree_ok test_types (test_root [3, 1]) \<and>
   add_decays (Suc (Suc 0)) test_types (test_root [3, 1]) 2 =
     Some (Inr (Node ''root'' 0 [3, 1] [3, 1] [3, 1]
        [Node ''[rho->pipi]'' 0 [3] [0, 0] [1, 0, 0] []])) \<and>
   tree_ok test_types (Node ''root'' 0 [3, 1] [3, 1] [3, 1]
        [Node ''[rho->pipi]'' 0 [3] [0, 0] [1, 0, 0] []])"
proof -
  let ?n1 = "Node ''root'' 5 [3, 1] [3, 1] [3, 1] [Node ''d'' 1 [3] [0, 0] [1, 0, 0] []]"
  let ?n2 = "Node ''root'' 0 [3, 1] [3, 1] [3, 1] [Node ''[rho->pipi]'' 0 [3] [0, 0] [1, 0, 0] []]"
  have a: "add_action test_types (test_root [3, 1]) ''d'' 1 [3] [0, 0] = Inr ?n1"
    by (simp add: add_action_def test_root_def test_types_def set_children_def)
  have c: "children (test_root [3, 1]) = []"
    by (simp add: test_root_def)
  have g: "(grows test_types)\<^sup>*\<^sup>* (test_root [3, 1]) ?n1"
    using grows_add [OF a] by (rule r_into_rtranclp)
  have r: "tree_ok test_types (test_root [3, 1])"
    by (simp add: test_root_def)
  have e: "add_decays (Suc (Suc 0)) test_types (test_root [3, 1]) 2 = Some (Inr ?n2)"
    by (simp add: test_types_def test_root_def norm_of_def n_unstable_def sqrts_minus_masses_def
        add_action_def make_decay_name_def final_state_mass_def set_children_def set_weight_def)
  note t = child_state_invariant [where T = test_types and node = "test_root [3, 1]"
      and nm = "''d''" and w = 1 and ini = "[3]" and fin = "[0, 0]" and node' = ?n1
      and ?r0.0 = "test_root [3, 1]" and n = ?n1 and m = "test_root [3, 1]"
      and depth = "Suc (Suc 0)" and sqrts = 2 and m' = ?n2]
  have "tree_ok test_types ?n1"
    using t [THEN conjunct2, THEN conjunct1] c g by blast
  moreover have "tree_ok test_types ?n2"
    using t [THEN conjunct2, THEN conjunct2] r e by blast
  ultimately show ?thesis
    using a c g r e by blast
qed

end
